theory Spec2Isabelle
  imports Main "HOL-Library.Word"
begin

section \<open>The remote collection facade of \<^verbatim>\<open>src/sync/remote_mongo_collection.cpp\<close>\<close>

text \<open>
  The file defines four static response handlers and the thirteen operations of
  \<^verbatim>\<open>RemoteMongoCollection\<close>. Each operation builds a JSON argument document inside a
  \<^verbatim>\<open>try\<close> block, serialises it and hands it to \<^verbatim>\<open>m_service->call_function\<close> together with a
  callback; any \<^verbatim>\<open>std::exception\<close> raised on the way is caught and reported through the
  completion block as a \<^verbatim>\<open>malformed_json\<close> error.

  The embedding keeps this shape. An exception is a value on the left of a sum, a call of
  the completion block is the pair of its arguments, and an operation returns what it did:
  it either called the completion block or called the channel.
\<close>

subsection \<open>Exceptions and errors\<close>

text \<open>
  Every exception the file can meet derives from \<^verbatim>\<open>std::exception\<close>; the handlers only read
  \<^verbatim>\<open>e.what()\<close>. The constructors name the library classes: the three exception classes of
  the JSON library with their numeric identifier, the two that \<^verbatim>\<open>std::stoi\<close> and
  \<^verbatim>\<open>std::stoull\<close> raise, and the one that \<^verbatim>\<open>util::Optional::value()\<close> raises.
\<close>

datatype exception =
    parse_error nat
  | type_error nat
  | out_of_range nat
  | std_invalid_argument
  | std_out_of_range
  | BadOptionalAccess

text \<open>
  Modelled from the spec: \<^verbatim>\<open>AppError\<close> and its error codes are declared outside the two
  source files. The spec gives an error a kind and a message, the kinds being the local
  malformed-JSON failure and the failures the channel reports, which this layer never
  inspects.
\<close>

datatype error_code = malformed_json | service_error nat

record AppError =
  error_code :: error_code
  message :: string

subsection \<open>JSON values\<close>

text \<open>
  The value type of the JSON library. Numbers are 64 bits wide (signed, unsigned, or the
  bit pattern of a double; none is inspected here). An object is a \<^verbatim>\<open>std::map\<close> from
  strings to values: an association list read with \<^const>\<open>map_of\<close>, in which a key is
  never stored twice.
\<close>

datatype json =
    JNull
  | JBoolean bool
  | JNumberInteger "64 word"
  | JNumberUnsigned "64 word"
  | JNumberFloat "64 word"
  | JString string
  | JArray "json list"
  | JObject "(string \<times> json) list"

type_synonym object_t = "(string \<times> json) list"

text \<open>
  \<^verbatim>\<open>j.push_back({key, value})\<close> on an object: \<^verbatim>\<open>std::map::insert\<close>, which leaves the map
  unchanged when the key is already there. Both \<^verbatim>\<open>base_args\<close> and \<^verbatim>\<open>args\<close> are objects
  wherever the file pushes onto them.
\<close>

definition push_back :: "object_t \<Rightarrow> string \<Rightarrow> json \<Rightarrow> object_t" where
  "push_back obj key val = (case map_of obj key of None \<Rightarrow> obj @ [(key, val)] | Some _ \<Rightarrow> obj)"

text \<open>\<^verbatim>\<open>j.at(key)\<close>: type error 304 unless \<^verbatim>\<open>j\<close> is an object, out of range 403 for a missing key.\<close>

fun at_key :: "json \<Rightarrow> string \<Rightarrow> exception + json" where
  "at_key (JObject obj) key = (case map_of obj key of None \<Rightarrow> Inl (out_of_range 403) | Some v \<Rightarrow> Inr v)"
| "at_key _ key = Inl (type_error 304)"

text \<open>\<^verbatim>\<open>j.find(key) != j.end()\<close>: the element, or nothing when the key is missing or \<^verbatim>\<open>j\<close> is no object.\<close>

fun find_key :: "json \<Rightarrow> string \<Rightarrow> json option" where
  "find_key (JObject obj) key = map_of obj key"
| "find_key _ key = None"

text \<open>\<^verbatim>\<open>j.get<std::string>()\<close> and \<^verbatim>\<open>j.get<std::vector<json>>()\<close>: type error 302 on another kind of value.\<close>

fun get_string :: "json \<Rightarrow> exception + string" where
  "get_string (JString s) = Inr s"
| "get_string _ = Inl (type_error 302)"

fun get_vector :: "json \<Rightarrow> exception + json list" where
  "get_vector (JArray xs) = Inr xs"
| "get_vector _ = Inl (type_error 302)"

text \<open>
  The parser, the serialiser and the text of an exception belong to the libraries and are
  parameters of the model: \<^verbatim>\<open>json::parse\<close> returns a value or raises, \<^verbatim>\<open>dump\<close> returns the
  text or raises (type error 316 on a string that is not UTF-8), \<^verbatim>\<open>what\<close> is the
  diagnostic of an exception.
\<close>

record lib =
  parse :: "string \<Rightarrow> exception + json"
  dump :: "json \<Rightarrow> exception + string"
  what :: "exception \<Rightarrow> string"

text \<open>Sequencing inside a \<^verbatim>\<open>try\<close> block: the first exception ends the block.\<close>

definition and_then :: "exception + 'a \<Rightarrow> ('a \<Rightarrow> exception + 'b) \<Rightarrow> exception + 'b" where
  "and_then r f = (case r of Inl e \<Rightarrow> Inl e | Inr x \<Rightarrow> f x)"

text \<open>\<^verbatim>\<open>util::Optional<T>::value()\<close> of realm-core: the value, or \<^verbatim>\<open>BadOptionalAccess\<close> when there is none.\<close>

definition opt_value :: "'a option \<Rightarrow> exception + 'a" where
  "opt_value opt = (case opt of None \<Rightarrow> Inl BadOptionalAccess | Some x \<Rightarrow> Inr x)"

subsection \<open>\<^verbatim>\<open>std::stoi\<close> and \<^verbatim>\<open>std::stoull\<close>\<close>

text \<open>
  Both go through \<^verbatim>\<open>strtol\<close>/\<^verbatim>\<open>strtoull\<close> in base 10: leading white space is skipped, one
  sign is accepted, then the longest run of decimal digits is read and the rest of the
  string is ignored. No digit at all is \<^verbatim>\<open>std::invalid_argument\<close>; a value outside the
  result type is \<^verbatim>\<open>std::out_of_range\<close>. \<^verbatim>\<open>strtoull\<close> negates a value with a minus sign
  modulo \<^verbatim>\<open>2^64\<close>.
\<close>

definition isspace :: "char \<Rightarrow> bool" where
  "isspace c = (c = CHR '' '' \<or> (9 \<le> (of_char c :: nat) \<and> (of_char c :: nat) \<le> 13))"

definition isdigit :: "char \<Rightarrow> bool" where
  "isdigit c = (48 \<le> (of_char c :: nat) \<and> (of_char c :: nat) \<le> 57)"

definition digits_value :: "string \<Rightarrow> nat" where
  "digits_value ds = foldl (\<lambda>acc c. 10 * acc + ((of_char c :: nat) - 48)) 0 ds"

definition strto :: "string \<Rightarrow> (bool \<times> nat) option" where
  "strto s =
     (let r = dropWhile isspace s;
          (neg, r') = (case r of
                         [] \<Rightarrow> (False, [])
                       | c # cs \<Rightarrow> if c = CHR ''-'' then (True, cs)
                                  else if c = CHR ''+'' then (False, cs)
                                  else (False, r));
          ds = takeWhile isdigit r'
      in if ds = [] then None else Some (neg, digits_value ds))"

definition stoi :: "string \<Rightarrow> exception + int" where
  "stoi s =
     (case strto s of
        None \<Rightarrow> Inl std_invalid_argument
      | Some (neg, n) \<Rightarrow>
          (let v = (if neg then - int n else int n)
           in if v < - (2 ^ 31) \<or> 2 ^ 31 - 1 < v then Inl std_out_of_range else Inr v))"

definition stoull :: "string \<Rightarrow> exception + 64 word" where
  "stoull s =
     (case strto s of
        None \<Rightarrow> Inl std_invalid_argument
      | Some (neg, n) \<Rightarrow>
          if 2 ^ 64 - 1 < n then Inl std_out_of_range
          else Inr (if neg then - word_of_nat n else word_of_nat n))"

subsection \<open>Completions and the channel\<close>

text \<open>
  A call \<^verbatim>\<open>completion_block(result, error)\<close> is the pair of its arguments. An operation
  ends in one of two ways: it has called its completion block itself, or it has called
  \<^verbatim>\<open>m_service->call_function(name, text, callback)\<close>; the callback is what the channel will
  run with the error and the payload it reports.
\<close>

type_synonym 'r completion = "'r \<times> AppError option"

datatype 'r outcome =
    Completion 'r "AppError option"
  | CallFunction string string "AppError option \<Rightarrow> string option \<Rightarrow> 'r completion"

text \<open>The error every \<^verbatim>\<open>catch\<close> block builds: \<^verbatim>\<open>AppError(make_error_code(JSONErrorCode::malformed_json), e.what())\<close>.\<close>

definition malformed :: "lib \<Rightarrow> exception \<Rightarrow> AppError" where
  "malformed L e = \<lparr>error_code = malformed_json, message = what L e\<rparr>"

subsection \<open>Result and option types\<close>

text \<open>
  Modelled from the spec: the result and option structures are declared outside the two
  source files. \<^verbatim>\<open>RemoteUpdateResult\<close> holds two unsigned 64-bit counts and the upserted
  identifier; \<^verbatim>\<open>RemoteFindOptions\<close> holds three optional fields;
  \<^verbatim>\<open>RemoteFindOneAndModifyOptions\<close> holds two optional texts and two flags, which the
  operations test and store as booleans.
\<close>

record RemoteUpdateResult =
  matched_count :: "64 word"
  modified_count :: "64 word"
  upserted_id :: string

record RemoteFindOptions =
  limit :: "64 word option"
  projection_json :: "string option"
  sort_json :: "string option"

record RemoteFindOneAndModifyOptions =
  fm_projection_json :: "string option"
  fm_sort_json :: "string option"
  upsert :: bool
  return_new_document :: bool

text \<open>The value-initialised \<^verbatim>\<open>RemoteUpdateResult {}\<close>.\<close>

definition empty_update_result :: RemoteUpdateResult where
  "empty_update_result = \<lparr>matched_count = 0, modified_count = 0, upserted_id = []\<rparr>"

subsection \<open>Response handlers\<close>

definition handle_response :: "AppError option \<Rightarrow> string option \<Rightarrow> string completion" where
  "handle_response error val =
     (case (val, error) of
        (Some v, None) \<Rightarrow> (v, error)
      | _ \<Rightarrow> ([], error))"

definition handle_count_response :: "lib \<Rightarrow> AppError option \<Rightarrow> string option \<Rightarrow> (64 word) completion" where
  "handle_count_response L error val =
     (case (val, error) of
        (Some v, None) \<Rightarrow>
          (case and_then (parse L v) (\<lambda>json.
                and_then (at_key json ''$numberLong'') (\<lambda>n.
                and_then (get_string n) (\<lambda>count_string.
                stoi count_string))) of
             Inr count \<Rightarrow> (word_of_int count, error)
           | Inl e \<Rightarrow> (0, Some (malformed L e)))
      | _ \<Rightarrow> (0, error))"

definition handle_delete_count_response :: "lib \<Rightarrow> AppError option \<Rightarrow> string option \<Rightarrow> (64 word) completion" where
  "handle_delete_count_response L error val =
     (case (val, error) of
        (Some v, None) \<Rightarrow>
          (case and_then (parse L v) (\<lambda>json.
                and_then (at_key json ''deletedCount'') (\<lambda>d.
                and_then (at_key d ''$numberInt'') (\<lambda>n.
                and_then (get_string n) (\<lambda>count_string.
                stoi count_string)))) of
             Inr count \<Rightarrow> (word_of_int count, error)
           | Inl e \<Rightarrow> (0, Some (malformed L e)))
      | _ \<Rightarrow> (0, error))"

definition handle_update_response :: "lib \<Rightarrow> AppError option \<Rightarrow> string option \<Rightarrow> RemoteUpdateResult completion" where
  "handle_update_response L error val =
     (case (val, error) of
        (Some v, None) \<Rightarrow>
          (case and_then (parse L v) (\<lambda>json.
                and_then (at_key json ''matchedCount'') (\<lambda>mc.
                and_then (at_key mc ''$numberInt'') (\<lambda>mn.
                and_then (get_string mn) (\<lambda>matched_count_string.
                and_then (stoull matched_count_string) (\<lambda>matched.
                and_then (at_key json ''modifiedCount'') (\<lambda>dc.
                and_then (at_key dc ''$numberInt'') (\<lambda>dn.
                and_then (get_string dn) (\<lambda>modified_count_string.
                and_then (stoull modified_count_string) (\<lambda>modified.
                and_then (case find_key json ''upsertedId'' of
                            None \<Rightarrow> Inr []
                          | Some _ \<Rightarrow>
                              and_then (at_key json ''upsertedId'') (\<lambda>u.
                              and_then (at_key u ''$oid'') get_string)) (\<lambda>upserted.
                Inr \<lparr>matched_count = matched, modified_count = modified,
                     upserted_id = upserted\<rparr>)))))))))) of
             Inr result \<Rightarrow> (result, error)
           | Inl e \<Rightarrow> (empty_update_result, Some (malformed L e)))
      | _ \<Rightarrow> (empty_update_result, error))"

text \<open>
  The callback of \<^verbatim>\<open>insert_many\<close>. Its loop counts in an \<^verbatim>\<open>int\<close> (32 bits, two's
  complement) and converts the counter to the \<^verbatim>\<open>uint64_t\<close> key at each insertion, which
  extends the sign; \<^verbatim>\<open>std::map::insert\<close> keeps the value of a key that is already there.
  Incrementing the counter past \<^verbatim>\<open>INT_MAX\<close> is undefined in C++; here it wraps around.
\<close>

definition map_insert :: "('k \<rightharpoonup> 'v) \<Rightarrow> 'k \<Rightarrow> 'v \<Rightarrow> ('k \<rightharpoonup> 'v)" where
  "map_insert m k v = (case m k of None \<Rightarrow> m(k \<mapsto> v) | Some _ \<Rightarrow> m)"

fun insert_oids :: "json list \<Rightarrow> 32 word \<Rightarrow> (64 word \<rightharpoonup> string) \<Rightarrow> exception + (64 word \<rightharpoonup> string)" where
  "insert_oids [] i mapped_oids = Inr mapped_oids"
| "insert_oids (inserted_id # rest) i mapped_oids =
     and_then (at_key inserted_id ''$oid'') (\<lambda>v.
     and_then (get_string v) (\<lambda>oid.
     insert_oids rest (i + 1) (map_insert mapped_oids (scast i) oid)))"

definition insert_many_response :: "lib \<Rightarrow> AppError option \<Rightarrow> string option \<Rightarrow> (64 word \<rightharpoonup> string) completion" where
  "insert_many_response L error val =
     (case (val, error) of
        (Some v, None) \<Rightarrow>
          (case and_then (parse L v) (\<lambda>json.
                and_then (at_key json ''insertedIds'') (\<lambda>ids.
                and_then (get_vector ids) (\<lambda>inserted_ids.
                insert_oids inserted_ids 0 Map.empty))) of
             Inr mapped_oids \<Rightarrow> (mapped_oids, error)
           | Inl e \<Rightarrow> (Map.empty, Some (malformed L e)))
      | _ \<Rightarrow> (Map.empty, error))"

text \<open>The callback of \<^verbatim>\<open>find_one_and_delete\<close> drops the payload: \<^verbatim>\<open>completion_block(error)\<close>.\<close>

definition find_one_and_delete_response :: "AppError option \<Rightarrow> string option \<Rightarrow> unit completion" where
  "find_one_and_delete_response error val = ((), error)"

subsection \<open>Building and sending the argument document\<close>

text \<open>
  \<^verbatim>\<open>m_base_operation_args\<close>: the object holding the database and the collection name.
\<close>

record collection =
  name :: string
  database_name :: string

definition m_base_operation_args :: "collection \<Rightarrow> object_t" where
  "m_base_operation_args c =
     [(''database'', JString (database_name c)), (''collection'', JString (name c))]"

text \<open>
  \<^verbatim>\<open>nlohmann::json( {{"arguments", nlohmann::json::array({base_args})}} )\<close>: the envelope, an
  object whose one field holds the one-element array of \<^verbatim>\<open>base_args\<close>.
\<close>

definition envelope :: "object_t \<Rightarrow> object_t" where
  "envelope base_args = [(''arguments'', JArray [JObject base_args])]"

text \<open>
  The end every operation shares: \<^verbatim>\<open>args.dump()\<close> is handed to the channel under the
  operation's name together with the callback, and an exception raised anywhere in the
  \<^verbatim>\<open>try\<close> block, the serialisation included, ends in the completion block with the
  operation's empty result and a \<^verbatim>\<open>malformed_json\<close> error.
\<close>

definition call_function ::
  "lib \<Rightarrow> string \<Rightarrow> exception + object_t \<Rightarrow> 'r
     \<Rightarrow> (AppError option \<Rightarrow> string option \<Rightarrow> 'r completion) \<Rightarrow> 'r outcome" where
  "call_function L fname args zero callback =
     (case and_then args (\<lambda>a. dump L (JObject a)) of
        Inr text \<Rightarrow> CallFunction fname text callback
      | Inl e \<Rightarrow> Completion zero (Some (malformed L e)))"

text \<open>
  The option handling of \<^verbatim>\<open>find\<close>, \<^verbatim>\<open>find_one\<close>, \<^verbatim>\<open>find_one_and_replace\<close> and
  \<^verbatim>\<open>find_one_and_delete\<close> pushes onto \<^verbatim>\<open>args\<close>, that of \<^verbatim>\<open>find_one_and_update\<close> onto
  \<^verbatim>\<open>base_args\<close>; the two texts are handled by the same pair of statements everywhere, both
  guarded by \<^verbatim>\<open>options.projection_json\<close>.
\<close>

definition push_project_sort ::
  "lib \<Rightarrow> string option \<Rightarrow> string option \<Rightarrow> object_t \<Rightarrow> exception + object_t" where
  "push_project_sort L projection_opt sort_opt obj =
     and_then (case projection_opt of
                 None \<Rightarrow> Inr obj
               | Some p \<Rightarrow> and_then (parse L p) (\<lambda>pj. Inr (push_back obj ''project'' pj))) (\<lambda>obj.
     (case projection_opt of
        None \<Rightarrow> Inr obj
      | Some _ \<Rightarrow>
          and_then (opt_value sort_opt) (\<lambda>s.
          and_then (parse L s) (\<lambda>sj. Inr (push_back obj ''sort'' sj)))))"

definition push_upsert_return :: "RemoteFindOneAndModifyOptions \<Rightarrow> object_t \<Rightarrow> object_t" where
  "push_upsert_return options obj =
     (let obj = (if upsert options then push_back obj ''upsert'' (JBoolean (upsert options)) else obj)
      in if return_new_document options
         then push_back obj ''returnNewDocument'' (JBoolean (return_new_document options))
         else obj)"

subsection \<open>The operations\<close>

definition find_args :: "lib \<Rightarrow> collection \<Rightarrow> string \<Rightarrow> RemoteFindOptions \<Rightarrow> exception + object_t" where
  "find_args L c filter_json options =
     and_then (parse L filter_json) (\<lambda>query.
       let base_args = push_back (m_base_operation_args c) ''query'' query;
           args = envelope base_args;
           args = (case limit options of
                     None \<Rightarrow> args
                   | Some l \<Rightarrow> push_back args ''limit'' (JNumberInteger l))
       in push_project_sort L (projection_json options) (sort_json options) args)"

definition find_op :: "lib \<Rightarrow> collection \<Rightarrow> string \<Rightarrow> RemoteFindOptions \<Rightarrow> string outcome" where
  "find_op L c filter_json options =
     call_function L ''find'' (find_args L c filter_json options) [] handle_response"

definition find_one :: "lib \<Rightarrow> collection \<Rightarrow> string \<Rightarrow> RemoteFindOptions \<Rightarrow> string outcome" where
  "find_one L c filter_json options =
     call_function L ''findOne'' (find_args L c filter_json options) [] handle_response"

definition insert_one_args :: "lib \<Rightarrow> collection \<Rightarrow> string \<Rightarrow> exception + object_t" where
  "insert_one_args L c value_json =
     and_then (parse L value_json) (\<lambda>document.
       Inr (envelope (push_back (m_base_operation_args c) ''document'' document)))"

definition insert_one :: "lib \<Rightarrow> collection \<Rightarrow> string \<Rightarrow> string outcome" where
  "insert_one L c value_json =
     call_function L ''insertOne'' (insert_one_args L c value_json) [] handle_response"

text \<open>The loops of \<^verbatim>\<open>aggregate\<close> and \<^verbatim>\<open>insert_many\<close>: parse each text and append it to the array.\<close>

fun parse_each :: "lib \<Rightarrow> json list \<Rightarrow> string list \<Rightarrow> exception + json list" where
  "parse_each L arr [] = Inr arr"
| "parse_each L arr (text # rest) = and_then (parse L text) (\<lambda>j. parse_each L (arr @ [j]) rest)"

definition aggregate_args :: "lib \<Rightarrow> collection \<Rightarrow> string list \<Rightarrow> exception + object_t" where
  "aggregate_args L c pipline =
     and_then (parse_each L [] pipline) (\<lambda>pipelines.
       Inr (envelope (push_back (m_base_operation_args c) ''pipeline'' (JArray pipelines))))"

definition aggregate :: "lib \<Rightarrow> collection \<Rightarrow> string list \<Rightarrow> string outcome" where
  "aggregate L c pipline =
     call_function L ''aggregate'' (aggregate_args L c pipline) [] handle_response"

definition count_args :: "lib \<Rightarrow> collection \<Rightarrow> string \<Rightarrow> 64 word \<Rightarrow> exception + object_t" where
  "count_args L c filter_json lim =
     and_then (parse L filter_json) (\<lambda>query.
       let base_args = push_back (m_base_operation_args c) ''query'' query;
           args = envelope base_args;
           base_args = push_back base_args ''limit'' (JNumberUnsigned lim)
       in Inr args)"

definition count :: "lib \<Rightarrow> collection \<Rightarrow> string \<Rightarrow> 64 word \<Rightarrow> (64 word) outcome" where
  "count L c filter_json lim =
     call_function L ''count'' (count_args L c filter_json lim) 0 (handle_count_response L)"

definition insert_many_args :: "lib \<Rightarrow> collection \<Rightarrow> string list \<Rightarrow> exception + object_t" where
  "insert_many_args L c documents =
     and_then (parse_each L [] documents) (\<lambda>documents_array.
       Inr (envelope (push_back (m_base_operation_args c) ''documents'' (JArray documents_array))))"

definition insert_many :: "lib \<Rightarrow> collection \<Rightarrow> string list \<Rightarrow> (64 word \<rightharpoonup> string) outcome" where
  "insert_many L c documents =
     call_function L ''insertMany'' (insert_many_args L c documents) Map.empty
       (insert_many_response L)"

definition delete_args :: "lib \<Rightarrow> collection \<Rightarrow> string \<Rightarrow> exception + object_t" where
  "delete_args L c filter_json =
     and_then (parse L filter_json) (\<lambda>query.
       Inr (envelope (push_back (m_base_operation_args c) ''query'' query)))"

definition delete_one :: "lib \<Rightarrow> collection \<Rightarrow> string \<Rightarrow> (64 word) outcome" where
  "delete_one L c filter_json =
     call_function L ''deleteOne'' (delete_args L c filter_json) 0 (handle_delete_count_response L)"

definition delete_many :: "lib \<Rightarrow> collection \<Rightarrow> string \<Rightarrow> (64 word) outcome" where
  "delete_many L c filter_json =
     call_function L ''deleteMany'' (delete_args L c filter_json) 0 (handle_delete_count_response L)"

definition update_one_args :: "lib \<Rightarrow> collection \<Rightarrow> string \<Rightarrow> string \<Rightarrow> bool \<Rightarrow> exception + object_t" where
  "update_one_args L c filter_json update_json ups =
     and_then (parse L filter_json) (\<lambda>query.
     and_then (parse L update_json) (\<lambda>update.
       let base_args = push_back (m_base_operation_args c) ''query'' query;
           base_args = push_back base_args ''update'' update;
           base_args = push_back base_args ''upsert'' (JBoolean ups)
       in Inr (envelope base_args)))"

definition update_one :: "lib \<Rightarrow> collection \<Rightarrow> string \<Rightarrow> string \<Rightarrow> bool \<Rightarrow> RemoteUpdateResult outcome" where
  "update_one L c filter_json update_json ups =
     call_function L ''updateOne'' (update_one_args L c filter_json update_json ups)
       empty_update_result (handle_update_response L)"

definition update_many_args :: "lib \<Rightarrow> collection \<Rightarrow> string \<Rightarrow> string \<Rightarrow> bool \<Rightarrow> exception + object_t" where
  "update_many_args L c filter_json update_json ups =
     and_then (parse L filter_json) (\<lambda>query.
     and_then (parse L update_json) (\<lambda>update.
       let base_args = push_back (m_base_operation_args c) ''query'' query;
           base_args = push_back base_args ''update'' update;
           args = envelope base_args
       in Inr (push_back args ''upsert'' (JBoolean ups))))"

definition update_many :: "lib \<Rightarrow> collection \<Rightarrow> string \<Rightarrow> string \<Rightarrow> bool \<Rightarrow> RemoteUpdateResult outcome" where
  "update_many L c filter_json update_json ups =
     call_function L ''updateMany'' (update_many_args L c filter_json update_json ups)
       empty_update_result (handle_update_response L)"

definition find_one_and_update_args ::
  "lib \<Rightarrow> collection \<Rightarrow> string \<Rightarrow> string \<Rightarrow> RemoteFindOneAndModifyOptions \<Rightarrow> exception + object_t" where
  "find_one_and_update_args L c filter_json update_json options =
     and_then (parse L filter_json) (\<lambda>query.
     and_then (parse L update_json) (\<lambda>update.
       let base_args = push_back (m_base_operation_args c) ''query'' query;
           base_args = push_back base_args ''update'' update;
           base_args = push_upsert_return options base_args
       in and_then (push_project_sort L (fm_projection_json options) (fm_sort_json options) base_args)
            (\<lambda>base_args. Inr (envelope base_args))))"

definition find_one_and_update ::
  "lib \<Rightarrow> collection \<Rightarrow> string \<Rightarrow> string \<Rightarrow> RemoteFindOneAndModifyOptions \<Rightarrow> string outcome" where
  "find_one_and_update L c filter_json update_json options =
     call_function L ''findOneAndUpdate''
       (find_one_and_update_args L c filter_json update_json options) [] handle_response"

definition find_one_and_replace_args ::
  "lib \<Rightarrow> collection \<Rightarrow> string \<Rightarrow> string \<Rightarrow> RemoteFindOneAndModifyOptions \<Rightarrow> exception + object_t" where
  "find_one_and_replace_args L c filter_json replacement_json options =
     and_then (parse L filter_json) (\<lambda>query.
     and_then (parse L replacement_json) (\<lambda>replacement.
       let base_args = push_back (m_base_operation_args c) ''query'' query;
           base_args = push_back base_args ''update'' replacement;
           args = envelope base_args;
           args = push_upsert_return options args
       in push_project_sort L (fm_projection_json options) (fm_sort_json options) args))"

definition find_one_and_replace ::
  "lib \<Rightarrow> collection \<Rightarrow> string \<Rightarrow> string \<Rightarrow> RemoteFindOneAndModifyOptions \<Rightarrow> string outcome" where
  "find_one_and_replace L c filter_json replacement_json options =
     call_function L ''findOneAndReplace''
       (find_one_and_replace_args L c filter_json replacement_json options) [] handle_response"

definition find_one_and_delete_args ::
  "lib \<Rightarrow> collection \<Rightarrow> string \<Rightarrow> RemoteFindOneAndModifyOptions \<Rightarrow> exception + object_t" where
  "find_one_and_delete_args L c filter_json options =
     and_then (parse L filter_json) (\<lambda>query.
       let base_args = push_back (m_base_operation_args c) ''query'' query;
           args = envelope base_args;
           args = push_upsert_return options args
       in push_project_sort L (fm_projection_json options) (fm_sort_json options) args)"

definition find_one_and_delete ::
  "lib \<Rightarrow> collection \<Rightarrow> string \<Rightarrow> RemoteFindOneAndModifyOptions \<Rightarrow> unit outcome" where
  "find_one_and_delete L c filter_json options =
     call_function L ''findOneAndDelete''
       (find_one_and_delete_args L c filter_json options) () find_one_and_delete_response"

subsection \<open>A small library instance for the examples\<close>

text \<open>
  The examples below run the operations on concrete texts. For them the library is a
  finite table of JSON texts with the values they denote: parsing looks a text up
  (anything else is a parse error), serialising looks a value up. The texts list the
  keys of an object in sorted order, as the serialiser of the JSON library prints them.
\<close>

definition example_collection :: collection where
  "example_collection = \<lparr>name = ''c'', database_name = ''d''\<rparr>"

definition example_element :: "object_t" where
  "example_element =
     [(''database'', JString ''d''), (''collection'', JString ''c''), (''query'', JObject [])]"

definition example_texts :: "(string \<times> json) list" where
  \<open>example_texts =
     [(''{}'', JObject []),
      (''{"name":1}'', JObject [(''name'', JNumberUnsigned 1)]),
      (''{"arguments":[{"collection":"c","database":"d","query":{}}]}'',
       JObject [(''arguments'', JArray [JObject example_element])]),
      (''{"arguments":[{"collection":"c","database":"d","query":{},"update":{}}],"upsert":true}'',
       JObject [(''arguments'', JArray [JObject (example_element @ [(''update'', JObject [])])]),
                (''upsert'', JBoolean True)]),
      (''{"arguments":[{"collection":"c","database":"d","query":{},"update":{}}]}'',
       JObject [(''arguments'', JArray [JObject (example_element @ [(''update'', JObject [])])])]),
      (''{"arguments":[{"collection":"c","database":"d","query":{}}],"upsert":true}'',
       JObject [(''arguments'', JArray [JObject example_element]), (''upsert'', JBoolean True)]),
      (''{"$numberLong":"42"}'', JObject [(''$numberLong'', JString ''42'')]),
      (''{"$numberLong":"2147483648"}'', JObject [(''$numberLong'', JString ''2147483648'')]),
      (''{"deletedCount":{"$numberInt":"2147483648"}}'',
       JObject [(''deletedCount'', JObject [(''$numberInt'', JString ''2147483648'')])]),
      (''{"matchedCount":{"$numberInt":"2"},"modifiedCount":{"$numberInt":"1"}}'',
       JObject [(''matchedCount'', JObject [(''$numberInt'', JString ''2'')]),
                (''modifiedCount'', JObject [(''$numberInt'', JString ''1'')])]),
      (''{"insertedIds":[{"$oid":"a"},{"$oid":"b"}]}'',
       JObject [(''insertedIds'',
                 JArray [JObject [(''$oid'', JString ''a'')], JObject [(''$oid'', JString ''b'')]])])]\<close>

definition example_lib :: lib where
  "example_lib =
     \<lparr>parse = (\<lambda>text. case map_of example_texts text of
                         None \<Rightarrow> Inl (parse_error 101)
                       | Some j \<Rightarrow> Inr j),
      dump = (\<lambda>j. case map_of (map (\<lambda>(text, j). (j, text)) example_texts) j of
                     None \<Rightarrow> Inl (type_error 316)
                   | Some text \<Rightarrow> Inr text),
      what = (\<lambda>e. case e of
                     parse_error n \<Rightarrow> ''parse error''
                   | type_error n \<Rightarrow> ''type error''
                   | out_of_range n \<Rightarrow> ''key not found''
                   | std_invalid_argument \<Rightarrow> ''stoi''
                   | std_out_of_range \<Rightarrow> ''stoi''
                   | BadOptionalAccess \<Rightarrow> ''bad optional access'')\<rparr>"

section \<open>Properties\<close>

subsection \<open>Reading the building blocks\<close>

lemma and_then_Inr [simp]: "and_then (Inr x) f = f x"
  by (simp add: and_then_def)

lemma and_then_Inl [simp]: "and_then (Inl e) f = Inl e"
  by (simp add: and_then_def)

lemma and_then_eq_Inr: "and_then r f = Inr y \<longleftrightarrow> (\<exists>x. r = Inr x \<and> f x = Inr y)"
  by (cases r) simp_all

lemma at_key_eq_Inr: "at_key j k = Inr v \<longleftrightarrow> (\<exists>obj. j = JObject obj \<and> map_of obj k = Some v)"
  by (cases j) (auto split: option.splits)

lemma get_string_eq_Inr: "get_string j = Inr s \<longleftrightarrow> j = JString s"
  by (cases j) auto

lemma get_vector_eq_Inr: "get_vector j = Inr xs \<longleftrightarrow> j = JArray xs"
  by (cases j) auto

lemma call_function_Inl:
  "call_function L fname (Inl e) zero cb = Completion zero (Some (malformed L e))"
  by (simp add: call_function_def)

lemma call_function_Inr:
  "call_function L fname (Inr args) zero cb =
     (case dump L (JObject args) of
        Inr text \<Rightarrow> CallFunction fname text cb
      | Inl e \<Rightarrow> Completion zero (Some (malformed L e)))"
  by (simp add: call_function_def)

subsection \<open>The example library on the texts it knows\<close>

lemma example_parse_empty: "parse example_lib ''{}'' = Inr (JObject [])"
  by (simp add: example_lib_def example_texts_def)

lemma example_parse_name: \<open>parse example_lib ''{"name":1}'' = Inr (JObject [(''name'', JNumberUnsigned 1)])\<close>
  by (simp add: example_lib_def example_texts_def)

lemma example_what:
  "what example_lib BadOptionalAccess = ''bad optional access''"
  "what example_lib std_out_of_range = ''stoi''"
  "what example_lib (parse_error n) = ''parse error''"
  by (simp_all add: example_lib_def)

lemma example_dump_query:
  \<open>dump example_lib (JObject [(''arguments'', JArray [JObject
       [(''database'', JString ''d''), (''collection'', JString ''c''), (''query'', JObject [])]])])
     = Inr ''{"arguments":[{"collection":"c","database":"d","query":{}}]}''\<close>
  by (simp add: example_lib_def example_texts_def example_element_def)

lemma example_dump_query_update:
  \<open>dump example_lib (JObject [(''arguments'', JArray [JObject
       [(''database'', JString ''d''), (''collection'', JString ''c''), (''query'', JObject []),
        (''update'', JObject [])]])])
     = Inr ''{"arguments":[{"collection":"c","database":"d","query":{},"update":{}}]}''\<close>
  by (simp add: example_lib_def example_texts_def example_element_def)

lemma example_dump_update_upsert:
  \<open>dump example_lib (JObject [(''arguments'', JArray [JObject
       [(''database'', JString ''d''), (''collection'', JString ''c''), (''query'', JObject []),
        (''update'', JObject [])]]), (''upsert'', JBoolean True)])
     = Inr ''{"arguments":[{"collection":"c","database":"d","query":{},"update":{}}],"upsert":true}''\<close>
  by (simp add: example_lib_def example_texts_def example_element_def)

lemma example_dump_query_upsert:
  \<open>dump example_lib (JObject [(''arguments'', JArray [JObject
       [(''database'', JString ''d''), (''collection'', JString ''c''), (''query'', JObject [])]]),
       (''upsert'', JBoolean True)])
     = Inr ''{"arguments":[{"collection":"c","database":"d","query":{}}],"upsert":true}''\<close>
  by (simp add: example_lib_def example_texts_def example_element_def)

lemma example_parse_open: "parse example_lib ''{'' = Inl (parse_error 101)"
  by (simp add: example_lib_def example_texts_def)

lemma example_parse_count_big:
  \<open>parse example_lib ''{"$numberLong":"2147483648"}'' =
     Inr (JObject [(''$numberLong'', JString ''2147483648'')])\<close>
  by (simp add: example_lib_def example_texts_def)

lemma example_parse_delete_big:
  \<open>parse example_lib ''{"deletedCount":{"$numberInt":"2147483648"}}'' =
     Inr (JObject [(''deletedCount'', JObject [(''$numberInt'', JString ''2147483648'')])])\<close>
  by (simp add: example_lib_def example_texts_def)

lemma stoull_2: "stoull ''2'' = Inr 2" and stoull_1: "stoull ''1'' = Inr 1"
  by (simp_all add: stoull_def strto_def isspace_def isdigit_def digits_value_def)

lemma example_parse_update:
  \<open>parse example_lib ''{"matchedCount":{"$numberInt":"2"},"modifiedCount":{"$numberInt":"1"}}'' =
     Inr (JObject [(''matchedCount'', JObject [(''$numberInt'', JString ''2'')]),
                   (''modifiedCount'', JObject [(''$numberInt'', JString ''1'')])])\<close>
  by (simp add: example_lib_def example_texts_def)

lemma example_parse_inserted:
  \<open>parse example_lib ''{"insertedIds":[{"$oid":"a"},{"$oid":"b"}]}'' =
     Inr (JObject [(''insertedIds'',
            JArray (map (\<lambda>x. JObject [(''$oid'', JString x)]) [''a'', ''b'']))])\<close>
  by (simp add: example_lib_def example_texts_def)

subsection \<open>Errors and missing payloads in the response handlers\<close>

text \<open>
  C4. When the channel reports an error, every handler calls the completion block with
  that very error and the empty result of its operation: the empty string, 0, the empty
  update result, the empty mapping, or nothing at all for \<^verbatim>\<open>find_one_and_delete\<close>. The
  payload \<open>v\<close> may be present or absent, and the result does not depend on the library
  \<open>L\<close>: the payload is not parsed.
\<close>

theorem error_forwarded_unchanged:
  "handle_response (Some e) v = ([], Some e) \<and>
   handle_count_response L (Some e) v = (0, Some e) \<and>
   handle_delete_count_response L (Some e) v = (0, Some e) \<and>
   handle_update_response L (Some e) v =
     (\<lparr>matched_count = 0, modified_count = 0, upserted_id = []\<rparr>, Some e) \<and>
   insert_many_response L (Some e) v = (Map.empty, Some e) \<and>
   find_one_and_delete_response (Some e) v = ((), Some e)"
  by (cases v)
    (simp_all add: handle_response_def handle_count_response_def
      handle_delete_count_response_def handle_update_response_def insert_many_response_def
      find_one_and_delete_response_def empty_update_result_def)

text \<open>
  C10. When the channel reports neither an error nor a payload, every handler calls the
  completion block with the empty result of its operation and no error.
\<close>

theorem no_payload_no_error:
  "handle_response None None = ([], None) \<and>
   handle_count_response L None None = (0, None) \<and>
   handle_delete_count_response L None None = (0, None) \<and>
   handle_update_response L None None =
     (\<lparr>matched_count = 0, modified_count = 0, upserted_id = []\<rparr>, None) \<and>
   insert_many_response L None None = (Map.empty, None) \<and>
   find_one_and_delete_response None None = ((), None)"
  by (simp add: handle_response_def handle_count_response_def
      handle_delete_count_response_def handle_update_response_def insert_many_response_def
      find_one_and_delete_response_def empty_update_result_def)

subsection \<open>A projection without a sort option\<close>

lemma push_project_sort_no_projection: "push_project_sort L None s obj = Inr obj"
  by (simp add: push_project_sort_def)

lemma push_project_sort_no_sort: "\<exists>e. push_project_sort L (Some p) None obj = Inl e"
  by (cases "parse L p") (simp_all add: push_project_sort_def opt_value_def)

lemma find_args_no_sort:
  assumes "projection_json options = Some p" and "sort_json options = None"
  shows "\<exists>e. find_args L c f options = Inl e"
proof (cases "parse L f")
  case (Inl e)
  then show ?thesis by (simp add: find_args_def)
next
  case (Inr q)
  with assms push_project_sort_no_sort [of L p] show ?thesis
    by (simp add: find_args_def Let_def)
qed

lemma find_one_and_update_args_no_sort:
  assumes "fm_projection_json m = Some p" and "fm_sort_json m = None"
  shows "\<exists>e. find_one_and_update_args L c f u m = Inl e"
proof (cases "parse L f")
  case (Inl e)
  then show ?thesis by (simp add: find_one_and_update_args_def)
next
  case f: (Inr q)
  show ?thesis
  proof (cases "parse L u")
    case (Inl e)
    with f show ?thesis by (simp add: find_one_and_update_args_def)
  next
    case (Inr d)
    obtain e where "push_project_sort L (Some p) None
        (push_upsert_return m (push_back (push_back (m_base_operation_args c) ''query'' q) ''update'' d)) = Inl e"
      using push_project_sort_no_sort by blast
    with f Inr assms show ?thesis
      by (simp add: find_one_and_update_args_def Let_def)
  qed
qed

lemma find_one_and_replace_args_no_sort:
  assumes "fm_projection_json m = Some p" and "fm_sort_json m = None"
  shows "\<exists>e. find_one_and_replace_args L c f u m = Inl e"
proof (cases "parse L f")
  case (Inl e)
  then show ?thesis by (simp add: find_one_and_replace_args_def)
next
  case f: (Inr q)
  show ?thesis
  proof (cases "parse L u")
    case (Inl e)
    with f show ?thesis by (simp add: find_one_and_replace_args_def)
  next
    case (Inr d)
    with f assms push_project_sort_no_sort [of L p] show ?thesis
      by (simp add: find_one_and_replace_args_def Let_def)
  qed
qed

lemma find_one_and_delete_args_no_sort:
  assumes "fm_projection_json m = Some p" and "fm_sort_json m = None"
  shows "\<exists>e. find_one_and_delete_args L c f m = Inl e"
proof (cases "parse L f")
  case (Inl e)
  then show ?thesis by (simp add: find_one_and_delete_args_def)
next
  case (Inr q)
  with assms push_project_sort_no_sort [of L p] show ?thesis
    by (simp add: find_one_and_delete_args_def Let_def)
qed

text \<open>
  C9. When the projection option is present and the sort option is absent, each of
  \<^verbatim>\<open>find\<close>, \<^verbatim>\<open>find_one\<close>, \<^verbatim>\<open>find_one_and_update\<close>, \<^verbatim>\<open>find_one_and_replace\<close> and
  \<^verbatim>\<open>find_one_and_delete\<close> ends by calling its completion block with a \<^verbatim>\<open>malformed_json\<close>
  error and the empty result, and does not call the channel: whatever the filter, the
  update and the projection are, the \<^verbatim>\<open>try\<close> block raises at the latest when the branch
  guarded by the projection reads the value of the absent sort option.
\<close>

theorem projection_without_sort_fails:
  assumes "projection_json options = Some p" and "sort_json options = None"
    and "fm_projection_json modify = Some p'" and "fm_sort_json modify = None"
  shows "(\<exists>e. find_op L c f options = Completion [] (Some (malformed L e))) \<and>
         (\<exists>e. find_one L c f options = Completion [] (Some (malformed L e))) \<and>
         (\<exists>e. find_one_and_update L c f u modify = Completion [] (Some (malformed L e))) \<and>
         (\<exists>e. find_one_and_replace L c f u modify = Completion [] (Some (malformed L e))) \<and>
         (\<exists>e. find_one_and_delete L c f modify = Completion () (Some (malformed L e)))"
proof -
  obtain e1 where "find_args L c f options = Inl e1"
    using find_args_no_sort [OF assms(1,2)] by blast
  moreover obtain e2 where "find_one_and_update_args L c f u modify = Inl e2"
    using find_one_and_update_args_no_sort [OF assms(3,4)] by blast
  moreover obtain e3 where "find_one_and_replace_args L c f u modify = Inl e3"
    using find_one_and_replace_args_no_sort [OF assms(3,4)] by blast
  moreover obtain e4 where "find_one_and_delete_args L c f modify = Inl e4"
    using find_one_and_delete_args_no_sort [OF assms(3,4)] by blast
  ultimately show ?thesis
    by (auto simp add: find_op_def find_one_def find_one_and_update_def find_one_and_replace_def
        find_one_and_delete_def call_function_Inl)
qed

theorem projection_without_sort_fails_witness:
  \<open>find_op example_lib example_collection ''{}''
      \<lparr>limit = None, projection_json = Some ''{"name":1}'', sort_json = None\<rparr>
     = Completion [] (Some \<lparr>error_code = malformed_json, message = ''bad optional access''\<rparr>) \<and>
   find_one_and_delete example_lib example_collection ''{}''
      \<lparr>fm_projection_json = Some ''{"name":1}'', fm_sort_json = None, upsert = False,
       return_new_document = False\<rparr>
     = Completion () (Some \<lparr>error_code = malformed_json, message = ''bad optional access''\<rparr>)\<close>
proof -
  let ?p = \<open>''{"name":1}''\<close>
  let ?options = "\<lparr>limit = None, projection_json = Some ?p, sort_json = None\<rparr>"
  let ?modify = "\<lparr>fm_projection_json = Some ?p, fm_sort_json = None, upsert = False,
       return_new_document = False\<rparr>"
  have "push_project_sort example_lib (Some ?p) None obj = Inl BadOptionalAccess" for obj
    by (simp add: push_project_sort_def opt_value_def example_parse_name)
  then have "find_args example_lib example_collection ''{}'' ?options = Inl BadOptionalAccess"
    and "find_one_and_delete_args example_lib example_collection ''{}'' ?modify = Inl BadOptionalAccess"
    by (simp_all add: find_args_def find_one_and_delete_args_def example_parse_empty Let_def)
  then show ?thesis
    using projection_without_sort_fails [of ?options ?p ?modify ?p example_lib example_collection "''{}''" "''{}''"]
    by (simp add: find_op_def find_one_and_delete_def call_function_Inl malformed_def example_what)
qed

subsection \<open>A sort option without a projection\<close>

text \<open>
  C1. The branch that pushes the \<^verbatim>\<open>sort\<close> field tests \<^verbatim>\<open>options.projection_json\<close>. With a
  sort option present and no projection, the document that \<^verbatim>\<open>find\<close> and
  \<^verbatim>\<open>find_one_and_update\<close> serialise and send holds no \<^verbatim>\<open>sort\<close> field, neither in the
  envelope nor in the element object: the sort option is dropped, for every sort text
  \<open>s\<close>.
\<close>

theorem sort_dropped_without_projection:
  assumes "parse L f = Inr q" and "parse L u = Inr d"
  shows "find_op L c f \<lparr>limit = None, projection_json = None, sort_json = Some s\<rparr> =
           call_function L ''find''
             (Inr [(''arguments'', JArray [JObject
                [(''database'', JString (database_name c)), (''collection'', JString (name c)),
                 (''query'', q)]])]) [] handle_response \<and>
         find_one_and_update L c f u
             \<lparr>fm_projection_json = None, fm_sort_json = Some s, upsert = False,
              return_new_document = False\<rparr> =
           call_function L ''findOneAndUpdate''
             (Inr [(''arguments'', JArray [JObject
                [(''database'', JString (database_name c)), (''collection'', JString (name c)),
                 (''query'', q), (''update'', d)]])]) [] handle_response"
  using assms
  by (simp add: find_op_def find_args_def find_one_and_update_def find_one_and_update_args_def
      push_project_sort_no_projection push_upsert_return_def push_back_def m_base_operation_args_def Let_def
      envelope_def)

theorem sort_dropped_without_projection_witness:
  \<open>find_op example_lib example_collection ''{}''
       \<lparr>limit = None, projection_json = None, sort_json = Some ''{"name":1}''\<rparr> =
     CallFunction ''find'' ''{"arguments":[{"collection":"c","database":"d","query":{}}]}''
       handle_response \<and>
   find_one_and_update example_lib example_collection ''{}'' ''{}''
       \<lparr>fm_projection_json = None, fm_sort_json = Some ''{"name":1}'', upsert = False,
        return_new_document = False\<rparr> =
     CallFunction ''findOneAndUpdate''
       ''{"arguments":[{"collection":"c","database":"d","query":{},"update":{}}]}''
       handle_response\<close>
  using sort_dropped_without_projection [OF example_parse_empty example_parse_empty,
      of example_collection \<open>''{"name":1}''\<close>]
  by (simp add: call_function_Inr example_collection_def example_dump_query
      example_dump_query_update)

text \<open>
  C5. The sort text is parsed only inside the branch guarded by the projection. A sort
  text that fails to parse, given without a projection, raises nothing: \<^verbatim>\<open>find\<close> calls the
  channel with the document built from the filter alone, and the completion block is left
  to the channel's callback.
\<close>

theorem malformed_sort_reaches_channel:
  assumes "parse L f = Inr q" and "parse L s = Inl e"
    and "dump L (JObject [(''arguments'', JArray [JObject
            [(''database'', JString (database_name c)), (''collection'', JString (name c)),
             (''query'', q)]])]) = Inr text"
  shows "find_op L c f \<lparr>limit = None, projection_json = None, sort_json = Some s\<rparr> =
           CallFunction ''find'' text handle_response"
  using assms
  by (simp add: find_op_def find_args_def push_project_sort_no_projection push_back_def
      m_base_operation_args_def Let_def envelope_def call_function_Inr)

theorem malformed_sort_reaches_channel_witness:
  \<open>parse example_lib ''{'' = Inl (parse_error 101) \<and>
   find_op example_lib example_collection ''{}''
       \<lparr>limit = None, projection_json = None, sort_json = Some ''{''\<rparr> =
     CallFunction ''find'' ''{"arguments":[{"collection":"c","database":"d","query":{}}]}''
       handle_response\<close>
  using malformed_sort_reaches_channel [OF example_parse_empty example_parse_open,
      of example_collection]
  by (simp add: example_collection_def example_dump_query example_parse_open)

subsection \<open>Fields pushed after the envelope is built\<close>

text \<open>
  C2. \<^verbatim>\<open>count\<close> pushes the limit onto \<^verbatim>\<open>base_args\<close> after it has copied \<^verbatim>\<open>base_args\<close> into
  the envelope. For every filter that parses, the document it serialises and sends holds
  the database, the collection and the query, and no \<^verbatim>\<open>limit\<close> field, whatever the limit.
\<close>

theorem count_limit_not_sent:
  assumes "parse L f = Inr q"
  shows "count L c f lim =
           call_function L ''count''
             (Inr [(''arguments'', JArray [JObject
                [(''database'', JString (database_name c)), (''collection'', JString (name c)),
                 (''query'', q)]])]) 0 (handle_count_response L)"
  using assms
  by (simp add: count_def count_args_def push_back_def m_base_operation_args_def envelope_def Let_def)

theorem count_limit_not_sent_witness:
  \<open>count example_lib example_collection ''{}'' 5 =
     CallFunction ''count'' ''{"arguments":[{"collection":"c","database":"d","query":{}}]}''
       (handle_count_response example_lib)\<close>
  using count_limit_not_sent [OF example_parse_empty, of example_collection 5]
  by (simp add: call_function_Inr example_collection_def example_dump_query)

text \<open>
  C3. \<^verbatim>\<open>update_many\<close> pushes \<^verbatim>\<open>upsert\<close> onto the envelope, next to \<^verbatim>\<open>arguments\<close>, and so does
  \<^verbatim>\<open>find_one_and_delete\<close> with its modifier fields: the element object of the arguments
  array holds the database, the collection, the query and (for \<^verbatim>\<open>update_many\<close>) the update,
  and no \<^verbatim>\<open>upsert\<close> field.
\<close>

theorem upsert_outside_element:
  assumes "parse L f = Inr q" and "parse L u = Inr d"
  shows "update_many L c f u ups =
           call_function L ''updateMany''
             (Inr [(''arguments'', JArray [JObject
                [(''database'', JString (database_name c)), (''collection'', JString (name c)),
                 (''query'', q), (''update'', d)]]),
                   (''upsert'', JBoolean ups)]) empty_update_result (handle_update_response L) \<and>
         find_one_and_delete L c f
             \<lparr>fm_projection_json = None, fm_sort_json = None, upsert = True,
              return_new_document = False\<rparr> =
           call_function L ''findOneAndDelete''
             (Inr [(''arguments'', JArray [JObject
                [(''database'', JString (database_name c)), (''collection'', JString (name c)),
                 (''query'', q)]]),
                   (''upsert'', JBoolean True)]) () find_one_and_delete_response"
  using assms
  by (simp add: update_many_def update_many_args_def find_one_and_delete_def
      find_one_and_delete_args_def push_project_sort_no_projection push_upsert_return_def
      push_back_def m_base_operation_args_def Let_def envelope_def)

theorem upsert_outside_element_witness:
  \<open>update_many example_lib example_collection ''{}'' ''{}'' True =
     CallFunction ''updateMany''
       ''{"arguments":[{"collection":"c","database":"d","query":{},"update":{}}],"upsert":true}''
       (handle_update_response example_lib) \<and>
   find_one_and_delete example_lib example_collection ''{}''
       \<lparr>fm_projection_json = None, fm_sort_json = None, upsert = True,
        return_new_document = False\<rparr> =
     CallFunction ''findOneAndDelete''
       ''{"arguments":[{"collection":"c","database":"d","query":{}}],"upsert":true}''
       find_one_and_delete_response\<close>
  using upsert_outside_element [OF example_parse_empty example_parse_empty,
      of example_collection True]
  by (simp add: call_function_Inr example_collection_def example_dump_update_upsert
      example_dump_query_upsert)

subsection \<open>Counts read with \<^verbatim>\<open>std::stoi\<close>\<close>

lemma isdigit_not_isspace: "isdigit c \<Longrightarrow> \<not> isspace c"
  by (auto simp add: isdigit_def isspace_def)

lemma isdigit_not_sign: "isdigit c \<Longrightarrow> c \<noteq> CHR ''-'' \<and> c \<noteq> CHR ''+''"
  by (auto simp add: isdigit_def)

lemma strto_digits:
  assumes "s \<noteq> []" and "list_all isdigit s"
  shows "strto s = Some (False, digits_value s)"
proof -
  from assms obtain c cs where s: "s = c # cs" and c: "isdigit c"
    by (cases s) auto
  have drop: "dropWhile isspace s = s"
    using s c by (simp add: isdigit_not_isspace)
  have take: "takeWhile isdigit s = s"
    using assms(2) by (simp add: list_all_iff)
  have sign: "(case s of
                [] \<Rightarrow> (False, [])
              | c # cs \<Rightarrow> if c = CHR ''-'' then (True, cs)
                         else if c = CHR ''+'' then (False, cs)
                         else (False, s)) = (False, s)"
    using s isdigit_not_sign [OF c] by simp
  show ?thesis
    using assms(1) by (simp add: strto_def Let_def drop sign take)
qed

lemma stoi_digits_out_of_range:
  assumes "s \<noteq> []" and "list_all isdigit s" and "2 ^ 31 \<le> digits_value s"
  shows "stoi s = Inl std_out_of_range"
  using assms(3) by (simp add: stoi_def strto_digits [OF assms(1,2)] Let_def)

lemma digits_value_example: "digits_value ''2147483648'' = 2147483648"
  by (simp add: digits_value_def)

text \<open>
  C8. The count and the delete count are read with \<^verbatim>\<open>std::stoi\<close>, whose result is an
  \<^verbatim>\<open>int\<close>. A digit string whose value is \<^verbatim>\<open>2^31\<close> or more, among them all those that fit 64
  bits and not 31, makes \<^verbatim>\<open>std::stoi\<close> raise \<^verbatim>\<open>std::out_of_range\<close>: both handlers then call
  the completion block with 0 and a \<^verbatim>\<open>malformed_json\<close> error instead of the value.
\<close>

theorem count_beyond_int_rejected:
  assumes "s \<noteq> []" and "list_all isdigit s" and "2 ^ 31 \<le> digits_value s"
    and "parse L v = Inr (JObject [(''$numberLong'', JString s)])"
    and "parse L v' = Inr (JObject [(''deletedCount'', JObject [(''$numberInt'', JString s)])])"
  shows "handle_count_response L None (Some v) = (0, Some (malformed L std_out_of_range)) \<and>
         handle_delete_count_response L None (Some v') = (0, Some (malformed L std_out_of_range))"
  using assms(4,5)
  by (simp add: handle_count_response_def handle_delete_count_response_def
      stoi_digits_out_of_range [OF assms(1-3)])

theorem count_beyond_int_rejected_witness:
  \<open>digits_value ''2147483648'' = 2 ^ 31 \<and>
   handle_count_response example_lib None (Some ''{"$numberLong":"2147483648"}'') =
     (0, Some \<lparr>error_code = malformed_json, message = ''stoi''\<rparr>) \<and>
   handle_delete_count_response example_lib None
       (Some ''{"deletedCount":{"$numberInt":"2147483648"}}'') =
     (0, Some \<lparr>error_code = malformed_json, message = ''stoi''\<rparr>)\<close>
proof -
  have "''2147483648'' \<noteq> []" and "list_all isdigit ''2147483648''"
    and "(2::nat) ^ 31 \<le> digits_value ''2147483648''"
    by (simp_all add: isdigit_def digits_value_example)
  from count_beyond_int_rejected [OF this example_parse_count_big example_parse_delete_big]
  show ?thesis
    by (simp add: malformed_def example_what(2) digits_value_example)
qed

subsection \<open>Decoding an update result\<close>

lemma sum_case_eq_pair:
  "(case x of Inr result \<Rightarrow> (result, None) | Inl e \<Rightarrow> (z, Some (g e))) = (r, None) \<longleftrightarrow> x = Inr r"
  by (cases x) simp_all

text \<open>
  C6. An update response is decoded without error exactly when the payload parses to an
  object whose \<^verbatim>\<open>matchedCount\<close> and \<^verbatim>\<open>modifiedCount\<close> fields are objects holding a string
  under \<^verbatim>\<open>$numberInt\<close> that \<^verbatim>\<open>std::stoull\<close> reads as the two 64-bit counts of the result, and
  the \<^verbatim>\<open>upsertedId\<close> field is either absent, in which case the upserted identifier is the
  empty string, or an object holding the identifier as a string under \<^verbatim>\<open>$oid\<close>.
\<close>

theorem update_result_read:
  "handle_update_response L None (Some v) = (r, None) \<longleftrightarrow>
     (\<exists>obj mc ms dc ds.
        parse L v = Inr (JObject obj) \<and>
        map_of obj ''matchedCount'' = Some (JObject mc) \<and>
        map_of mc ''$numberInt'' = Some (JString ms) \<and>
        stoull ms = Inr (matched_count r) \<and>
        map_of obj ''modifiedCount'' = Some (JObject dc) \<and>
        map_of dc ''$numberInt'' = Some (JString ds) \<and>
        stoull ds = Inr (modified_count r) \<and>
        (case map_of obj ''upsertedId'' of
           None \<Rightarrow> upserted_id r = []
         | Some u \<Rightarrow> \<exists>uo. u = JObject uo \<and> map_of uo ''$oid'' = Some (JString (upserted_id r))))"
  (is "?lhs \<longleftrightarrow> ?rhs")
proof
  assume ?lhs
  then show ?rhs
    by (auto simp add: handle_update_response_def sum_case_eq_pair and_then_eq_Inr at_key_eq_Inr
        get_string_eq_Inr split: option.split_asm)
next
  assume ?rhs
  then obtain obj mc ms dc ds where p: "parse L v = Inr (JObject obj)"
    and m: "map_of obj ''matchedCount'' = Some (JObject mc)"
      "map_of mc ''$numberInt'' = Some (JString ms)" "stoull ms = Inr (matched_count r)"
    and d: "map_of obj ''modifiedCount'' = Some (JObject dc)"
      "map_of dc ''$numberInt'' = Some (JString ds)" "stoull ds = Inr (modified_count r)"
    and u: "(case map_of obj ''upsertedId'' of
           None \<Rightarrow> upserted_id r = []
         | Some u \<Rightarrow> \<exists>uo. u = JObject uo \<and> map_of uo ''$oid'' = Some (JString (upserted_id r)))"
    by blast
  have r: "\<lparr>matched_count = matched_count r, modified_count = modified_count r,
             upserted_id = upserted_id r\<rparr> = r"
    by simp
  show ?lhs
  proof (cases "map_of obj ''upsertedId''")
    case None
    with p m d u r show ?thesis
      by (simp add: handle_update_response_def)
  next
    case (Some j)
    with u obtain uo where "j = JObject uo" "map_of uo ''$oid'' = Some (JString (upserted_id r))"
      by auto
    with Some p m d r show ?thesis
      by (simp add: handle_update_response_def)
  qed
qed

theorem update_result_read_witness:
  \<open>handle_update_response example_lib None
       (Some ''{"matchedCount":{"$numberInt":"2"},"modifiedCount":{"$numberInt":"1"}}'') =
     (\<lparr>matched_count = 2, modified_count = 1, upserted_id = []\<rparr>, None)\<close>
  unfolding update_result_read
  by (simp add: example_parse_update stoull_2 stoull_1)

subsection \<open>Decoding the inserted identifiers\<close>

lemma scast_counter:
  assumes "n < 2 ^ 31"
  shows "(scast (word_of_nat n :: 32 word) :: 64 word) = word_of_nat n"
proof -
  have "(word_of_nat n :: 32 word) = word_of_int (int n)"
    by simp
  then have "sint (word_of_nat n :: 32 word) = signed_take_bit 31 (int n)"
    by (simp only: sint_sbintrunc') simp
  also have "\<dots> = int n"
    using assms by (intro signed_take_bit_int_eq_self) simp_all
  finally show ?thesis
    by (simp add: scast_eq)
qed

lemma unat_key:
  assumes "n < 2 ^ 31"
  shows "unat (word_of_nat n :: 64 word) = n"
  using assms by (simp add: unat_of_nat)

lemma key_eq_iff:
  assumes "n < 2 ^ 31"
  shows "w = (word_of_nat n :: 64 word) \<longleftrightarrow> unat w = n"
  by (simp add: word_unat_eq_iff [of w] unat_key [OF assms])

lemma oid_element:
  "and_then (at_key (JObject [(''$oid'', JString x)]) ''$oid'') (\<lambda>v. and_then (get_string v) f) = f x"
  by simp

lemma insert_oids_indices:
  assumes "n + length ids \<le> 2 ^ 31" and "\<And>w. unat w \<ge> n \<Longrightarrow> m w = None"
  shows "insert_oids (map (\<lambda>x. JObject [(''$oid'', JString x)]) ids) (word_of_nat n) m =
           Inr (\<lambda>w. if n \<le> unat w \<and> unat w < n + length ids then Some (ids ! (unat w - n))
                    else m w)"
  using assms
proof (induction ids arbitrary: n m)
  case Nil
  then show ?case by (auto simp add: fun_eq_iff)
next
  case (Cons x xs)
  from Cons.prems(1) have n: "n < 2 ^ 31" by simp
  let ?k = "word_of_nat n :: 64 word"
  let ?m = "m(?k \<mapsto> x)"
  have fresh: "m ?k = None"
    using Cons.prems(2) [of ?k] unat_key [OF n] by simp
  have step: "map_insert m (scast (word_of_nat n :: 32 word)) x = ?m"
    by (simp add: map_insert_def scast_counter [OF n] fresh)
  have next_i: "(word_of_nat n :: 32 word) + 1 = word_of_nat (Suc n)"
    by simp
  have bound: "Suc n + length xs \<le> 2 ^ 31"
    using Cons.prems(1) by simp
  have dom: "?m w = None" if "unat w \<ge> Suc n" for w
  proof -
    from that have "unat w \<noteq> n" and "unat w \<ge> n" by simp_all
    then show ?thesis
      using Cons.prems(2) [of w] key_eq_iff [OF n, of w] by simp
  qed
  have "insert_oids (map (\<lambda>x. JObject [(''$oid'', JString x)]) (x # xs)) (word_of_nat n) m =
          insert_oids (map (\<lambda>x. JObject [(''$oid'', JString x)]) xs) (word_of_nat (Suc n)) ?m"
    unfolding next_i [symmetric] step [symmetric] by simp
  also have "\<dots> = Inr (\<lambda>w. if Suc n \<le> unat w \<and> unat w < Suc n + length xs
                              then Some (xs ! (unat w - Suc n)) else ?m w)"
    by (rule Cons.IH [OF bound dom])
  also have "(\<lambda>w. if Suc n \<le> unat w \<and> unat w < Suc n + length xs
                   then Some (xs ! (unat w - Suc n)) else ?m w) =
             (\<lambda>w. if n \<le> unat w \<and> unat w < n + length (x # xs)
                   then Some ((x # xs) ! (unat w - n)) else m w)"
  proof
    fix w :: "64 word"
    consider "unat w < n" | "unat w = n" | "Suc n \<le> unat w"
      by linarith
    then show "(if Suc n \<le> unat w \<and> unat w < Suc n + length xs
                then Some (xs ! (unat w - Suc n)) else ?m w) =
               (if n \<le> unat w \<and> unat w < n + length (x # xs)
                then Some ((x # xs) ! (unat w - n)) else m w)"
    proof cases
      case 1
      then show ?thesis using key_eq_iff [OF n, of w] by simp
    next
      case 2
      then show ?thesis using key_eq_iff [OF n, of w] by simp
    next
      case 3
      then have "unat w - n = Suc (unat w - Suc n)" by simp
      with 3 show ?thesis using key_eq_iff [OF n, of w] by simp
    qed
  qed
  finally show ?case .
qed

text \<open>
  C7. When the payload parses to an object whose \<^verbatim>\<open>insertedIds\<close> field is an array of
  objects \<^verbatim>\<open>{"$oid": id}\<close>, the callback of \<^verbatim>\<open>insert_many\<close> reports no error and the mapping
  that sends each index \<open>k\<close> below the length of the array to the identifier of the
  \<open>k\<close>-th element, and nothing else; the keys do not depend on the identifiers. The
  array is one the \<^verbatim>\<open>int\<close> counter of the loop can count, that is, shorter than \<^verbatim>\<open>2^31\<close>.
\<close>

theorem inserted_ids_indexed:
  assumes "parse L v = Inr (JObject obj)"
    and "map_of obj ''insertedIds'' = Some (JArray (map (\<lambda>x. JObject [(''$oid'', JString x)]) ids))"
    and "length ids < 2 ^ 31"
  shows "insert_many_response L None (Some v) =
           (\<lambda>k. if unat k < length ids then Some (ids ! unat k) else None, None)"
proof -
  have "insert_oids (map (\<lambda>x. JObject [(''$oid'', JString x)]) ids) 0 Map.empty =
          Inr (\<lambda>w. if 0 \<le> unat w \<and> unat w < 0 + length ids then Some (ids ! (unat w - 0))
                   else Map.empty w)"
    using insert_oids_indices [of 0 ids Map.empty] assms(3) by simp
  also have "(\<lambda>w :: 64 word. if 0 \<le> unat w \<and> unat w < 0 + length ids then Some (ids ! (unat w - 0))
                   else Map.empty w) =
             (\<lambda>k. if unat k < length ids then Some (ids ! unat k) else None)"
    by (auto simp add: fun_eq_iff)
  finally show ?thesis
    using assms(1,2) by (simp add: insert_many_response_def)
qed

theorem inserted_ids_indexed_witness:
  \<open>insert_many_response example_lib None (Some ''{"insertedIds":[{"$oid":"a"},{"$oid":"b"}]}'') =
     ([0 \<mapsto> ''a'', 1 \<mapsto> ''b''], None)\<close>
proof -
  have "(if unat k < length [''a'', ''b''] then Some ([''a'', ''b''] ! unat k) else None) =
          [0 \<mapsto> ''a'', 1 \<mapsto> ''b''] k" for k :: "64 word"
  proof -
    have k0: "k = 0 \<longleftrightarrow> unat k = 0" and k1: "k = 1 \<longleftrightarrow> unat k = 1"
      using word_unat_eq_iff [of k 0] word_unat_eq_iff [of k 1] by simp_all
    consider "unat k = 0" | "unat k = 1" | "2 \<le> unat k"
      by linarith
    then show ?thesis
    proof cases
      case 1
      then have "k = 0" by (simp only: k0)
      then show ?thesis by simp
    next
      case 2
      then have "k = 1" by (simp only: k1)
      then show ?thesis by simp
    next
      case 3
      then have "k \<noteq> 0" and "k \<noteq> 1" and "\<not> unat k < 2"
        unfolding k0 k1 by simp_all
      then show ?thesis by simp
    qed
  qed
  then have "(\<lambda>k :: 64 word. if unat k < length [''a'', ''b''] then Some ([''a'', ''b''] ! unat k) else None) =
          [0 \<mapsto> ''a'', 1 \<mapsto> ''b'']"
    by (rule ext)
  moreover have "length [''a'', ''b''] < (2::nat) ^ 31"
    by simp
  moreover have "map_of [(''insertedIds'',
            JArray (map (\<lambda>x. JObject [(''$oid'', JString x)]) [''a'', ''b'']))] ''insertedIds'' =
          Some (JArray (map (\<lambda>x. JObject [(''$oid'', JString x)]) [''a'', ''b'']))"
    by simp
  ultimately show ?thesis
    using inserted_ids_indexed [OF example_parse_inserted, of "[''a'', ''b'']"]
    by (simp only:)
qed

subsection \<open>The same paths on the inputs they handle\<close>

text \<open>
  What the statements examined above do where they work. A count below \<^verbatim>\<open>2^31\<close> is read
  and returned. With a projection and a sort option that both parse, \<^verbatim>\<open>find\<close> pushes both
  fields onto the envelope. A filter, a document or a pipeline stage that fails to parse
  ends every operation in its completion block with a \<^verbatim>\<open>malformed_json\<close> error; the
  channel is not called.
\<close>

lemma count_within_int_read:
  assumes "s \<noteq> []" and "list_all isdigit s" and "digits_value s < 2 ^ 31"
    and "parse L v = Inr (JObject [(''$numberLong'', JString s)])"
  shows "handle_count_response L None (Some v) = (word_of_nat (digits_value s), None)"
  using assms(3,4)
  by (simp add: handle_count_response_def stoi_def strto_digits [OF assms(1,2)])

lemma count_example:
  \<open>handle_count_response example_lib None (Some ''{"$numberLong":"42"}'') = (42, None)\<close>
proof -
  have "parse example_lib ''{\"$numberLong\":\"42\"}'' = Inr (JObject [(''$numberLong'', JString ''42'')])"
    by (simp add: example_lib_def example_texts_def)
  moreover have "digits_value ''42'' = 42"
    by (simp add: digits_value_def)
  ultimately show ?thesis
    using count_within_int_read [of "''42''" example_lib "''{\"$numberLong\":\"42\"}''"]
    by (simp add: isdigit_def)
qed

lemma sort_pushed_with_projection:
  assumes "parse L f = Inr q" and "parse L p = Inr pj" and "parse L s = Inr sj"
  shows "find_args L c f \<lparr>limit = None, projection_json = Some p, sort_json = Some s\<rparr> =
           Inr [(''arguments'', JArray [JObject
                  [(''database'', JString (database_name c)), (''collection'', JString (name c)),
                   (''query'', q)]]),
                (''project'', pj), (''sort'', sj)]"
  using assms
  by (simp add: find_args_def push_project_sort_def opt_value_def push_back_def
      m_base_operation_args_def envelope_def Let_def)

lemma malformed_filter_not_sent:
  assumes "parse L f = Inl e"
  shows "find_op L c f options = Completion [] (Some (malformed L e))"
    and "find_one L c f options = Completion [] (Some (malformed L e))"
    and "count L c f lim = Completion 0 (Some (malformed L e))"
    and "delete_one L c f = Completion 0 (Some (malformed L e))"
    and "delete_many L c f = Completion 0 (Some (malformed L e))"
    and "update_one L c f u ups = Completion empty_update_result (Some (malformed L e))"
    and "update_many L c f u ups = Completion empty_update_result (Some (malformed L e))"
    and "find_one_and_update L c f u modify = Completion [] (Some (malformed L e))"
    and "find_one_and_replace L c f u modify = Completion [] (Some (malformed L e))"
    and "find_one_and_delete L c f modify = Completion () (Some (malformed L e))"
  using assms
  by (simp_all add: find_op_def find_one_def find_args_def count_def count_args_def
      delete_one_def delete_many_def delete_args_def update_one_def update_one_args_def
      update_many_def update_many_args_def find_one_and_update_def find_one_and_update_args_def
      find_one_and_replace_def find_one_and_replace_args_def find_one_and_delete_def
      find_one_and_delete_args_def call_function_Inl)

lemma parse_each_failure:
  assumes "t \<in> set texts" and "parse L t = Inl e"
  shows "\<exists>e'. parse_each L arr texts = Inl e'"
  using assms
proof (induction texts arbitrary: arr)
  case Nil
  then show ?case by simp
next
  case (Cons x xs)
  show ?case
  proof (cases "parse L x")
    case (Inl e')
    then show ?thesis by simp
  next
    case (Inr j)
    with Cons.prems have "t \<in> set xs" by auto
    from Cons.IH [OF this Cons.prems(2)] Inr show ?thesis by simp
  qed
qed

lemma malformed_document_not_sent:
  assumes "t \<in> set texts" and "parse L t = Inl e"
  shows "\<exists>e'. aggregate L c texts = Completion [] (Some (malformed L e'))"
    and "\<exists>e'. insert_many L c texts = Completion Map.empty (Some (malformed L e'))"
    and "insert_one L c t = Completion [] (Some (malformed L e))"
proof -
  obtain e' where "parse_each L [] texts = Inl e'"
    using parse_each_failure [OF assms] by blast
  then show "\<exists>e'. aggregate L c texts = Completion [] (Some (malformed L e'))"
    and "\<exists>e'. insert_many L c texts = Completion Map.empty (Some (malformed L e'))"
    by (auto simp add: aggregate_def aggregate_args_def insert_many_def insert_many_args_def
        call_function_Inl)
  show "insert_one L c t = Completion [] (Some (malformed L e))"
    using assms(2) by (simp add: insert_one_def insert_one_args_def call_function_Inl)
qed

subsection \<open>The sibling paths\<close>

text \<open>
  For comparison with C3 and C8: \<^verbatim>\<open>update_one\<close> pushes \<^verbatim>\<open>upsert\<close> onto \<^verbatim>\<open>base_args\<close> before
  the envelope is built, so the field is part of the element object; and the update
  handler reads its counts with \<^verbatim>\<open>std::stoull\<close>, which accepts \<^verbatim>\<open>2^31\<close>.
\<close>

lemma update_one_upsert_in_element:
  assumes "parse L f = Inr q" and "parse L u = Inr d"
  shows "update_one L c f u ups =
           call_function L ''updateOne''
             (Inr [(''arguments'', JArray [JObject
                [(''database'', JString (database_name c)), (''collection'', JString (name c)),
                 (''query'', q), (''update'', d), (''upsert'', JBoolean ups)]])])
             empty_update_result (handle_update_response L)"
  using assms
  by (simp add: update_one_def update_one_args_def push_back_def m_base_operation_args_def
      envelope_def Let_def)

lemma stoull_beyond_int: "stoull ''2147483648'' = Inr 2147483648"
  by (simp add: stoull_def strto_def isspace_def isdigit_def digits_value_def)

end
